theory Spec2Isabelle
  imports Complex_Main "HOL-Library.Char_ord" "HOL-Library.List_Lexorder"
    "HOL-Library.Multiset"
begin

section \<open>The transaction hook \<open>useTransactions\<close>\<close>

text \<open>
  The development embeds \<^verbatim>\<open>src/hooks/useTransactions.ts\<close>. A JavaScript \<^verbatim>\<open>number\<close> is
  kept as a type variable \<open>'n\<close>: the code only adds, subtracts and multiplies numbers, and
  the sort of \<open>'n\<close> in each definition names exactly the operations used. Statements that
  need no law of arithmetic are made for every such \<open>'n\<close>; where a law is needed (a left
  fold read as a sum) the sort says so. Concrete evaluations take \<open>'n = rat\<close>.
\<close>

subsection \<open>Data\<close>

datatype TxType = Income | Expense

text \<open>
  \<^verbatim>\<open>Omit<Transaction, 'id' | 'user_id' | 'created_at'>\<close>, the argument of
  \<^verbatim>\<open>addTransaction\<close>; the row sent to the store adds \<^verbatim>\<open>user_id\<close>; the interface
  \<^verbatim>\<open>Transaction\<close> adds the fields the store assigns. \<^verbatim>\<open>displayAmount\<close> is not
  part of the interface: the hook attaches it to the objects it caches, so it is optional.
\<close>

record 'n NewTransaction =
  type_tx :: TxType
  amount :: 'n
  category :: string
  description :: "string option"
  transaction_date :: string

record 'n InsertRow = "'n NewTransaction" +
  user_id :: string

record 'n Transaction = "'n InsertRow" +
  id_tx :: string
  created_at :: string
  displayAmount :: "'n option"

text \<open>\<^verbatim>\<open>Partial<Omit<Transaction, 'id' | 'user_id' | 'created_at'>>\<close>.\<close>

record 'n Updates =
  type_upd :: "TxType option"
  amount_upd :: "'n option"
  category_upd :: "string option"
  description_upd :: "string option option"
  transaction_date_upd :: "string option"

record Currency =
  code :: string
  symbol :: string

text \<open>The \<^verbatim>\<open>detail\<close> of a \<^verbatim>\<open>currency-change\<close> event.\<close>

record 'n CurrencyChange = Currency +
  conversionRate :: 'n

record User =
  id_user :: string

text \<open>
  A JavaScript \<^verbatim>\<open>Date\<close> by its UTC fields (\<open>utcMonth\<close> counts from 0, as
  \<^verbatim>\<open>getUTCMonth\<close> does), or the invalid date, whose time value is \<^verbatim>\<open>NaN\<close>.
\<close>

record DateFields =
  utcFullYear :: int
  utcMonth :: nat
  utcDate :: nat
  utcHours :: nat
  utcMinutes :: nat
  utcSeconds :: nat
  utcMilliseconds :: nat

datatype Date = InvalidDate | ValidDate DateFields

record DateRange =
  start :: "Date option"
  end_range :: "Date option"

record 'n HookState =
  transactions :: "'n Transaction list"
  loading :: bool
  dateRange :: DateRange
  user :: "User option"
  currentCurrency :: Currency

subsection \<open>The memoized summary\<close>

record 'n FinancialSummary =
  income :: 'n
  expenses :: 'n
  balance :: 'n
  formattedIncome :: string
  formattedExpenses :: string
  formattedBalance :: string

text \<open>\<^verbatim>\<open>Number(x)\<close> at a value that is a number already.\<close>

definition Number :: "'n \<Rightarrow> 'n" where
  "Number x = x"

text \<open>
  The arguments of \<^verbatim>\<open>Number.prototype.toLocaleString\<close>: a locale, or \<^verbatim>\<open>undefined\<close> for
  the default locale of the runtime, and the options object, each of whose properties
  may be missing.
\<close>

datatype Locale = en_US | de_DE

record NumberFormatOptions =
  minimumFractionDigits :: "nat option"
  maximumFractionDigits :: "nat option"

text \<open>
  \<^verbatim>\<open>xs.reduce(f, init)\<close> runs from the left. \<open>toLocaleString\<close> is the method of the
  host; the hook calls it as
  \<^verbatim>\<open>x.toLocaleString(undefined, { minimumFractionDigits: 2, maximumFractionDigits: 2 })\<close>.
\<close>

definition financialSummary ::
  "('n \<Rightarrow> Locale option \<Rightarrow> NumberFormatOptions \<Rightarrow> string)
     \<Rightarrow> ('n::{zero,plus,minus}) Transaction list \<Rightarrow> Currency \<Rightarrow> 'n FinancialSummary"
where
  "financialSummary toLocaleString txs cur =
    (let income = foldl (\<lambda>sum t. sum + Number (amount t)) 0
                    (filter (\<lambda>t. type_tx t = Income) txs);
         expenses = foldl (\<lambda>sum t. sum + Number (amount t)) 0
                    (filter (\<lambda>t. type_tx t = Expense) txs);
         balance = income - expenses
     in \<lparr> income = income,
          expenses = expenses,
          balance = balance,
          formattedIncome = symbol cur
            @ toLocaleString income None
                \<lparr> minimumFractionDigits = Some 2, maximumFractionDigits = Some 2 \<rparr>,
          formattedExpenses = symbol cur
            @ toLocaleString expenses None
                \<lparr> minimumFractionDigits = Some 2, maximumFractionDigits = Some 2 \<rparr>,
          formattedBalance = symbol cur
            @ toLocaleString balance None
                \<lparr> minimumFractionDigits = Some 2, maximumFractionDigits = Some 2 \<rparr> \<rparr>)"

definition getTransactionSummary ::
  "('n \<Rightarrow> Locale option \<Rightarrow> NumberFormatOptions \<Rightarrow> string)
     \<Rightarrow> ('n::{zero,plus,minus}) HookState \<Rightarrow> 'n FinancialSummary"
where
  "getTransactionSummary toLocaleString st =
     financialSummary toLocaleString (transactions st) (currentCurrency st)"

subsection \<open>Effects and outcomes\<close>

text \<open>
  Every operation of the hook returns the state it leaves, the effects it had on the
  outside (calls to the remote store, console lines, toasts) in the order they happen,
  and the value the JavaScript function returns. An operation runs from its call to its
  return without another one in between, so the \<^verbatim>\<open>prev\<close> of a functional state update
  is the cache of the state the operation started in.
\<close>

datatype Err = StoreError string | TypeError | RangeError

datatype Filter = Eq string string | Gte string string | Lte string string

record OrderBy =
  column :: string
  ascending :: bool

record Query =
  from_table :: string
  select_columns :: string
  order_by :: "OrderBy list"
  filters :: "Filter list"

record ActivityLog =
  user_id_log :: string
  activity_type :: string
  description_log :: string

datatype 'n Request =
    Select Query
  | InsertTransactions "'n InsertRow"
  | UpdateTransactions "'n Updates" "Filter list"
  | DeleteTransactions "Filter list"
  | InsertActivityLogs ActivityLog

datatype 'n Effect =
    StoreCall "'n Request"
  | ConsoleError string Err
  | ToastError string "string option"
  | ToastSuccess string "string option"

datatype 'a Ret = Undefined | Null | Value 'a

record ('n, 'r) Outcome =
  state :: "'n HookState"
  effects :: "'n Effect list"
  returned :: "'r Ret"

text \<open>The requests sent to the remote store, in order.\<close>

fun store_calls :: "'n Effect list \<Rightarrow> 'n Request list" where
  "store_calls [] = []"
| "store_calls (StoreCall r # es) = r # store_calls es"
| "store_calls (_ # es) = store_calls es"

subsection \<open>The currency-change listener\<close>

text \<open>
  \<^verbatim>\<open>setCurrentCurrency({ code, symbol })\<close>, then every cached object is copied with
  \<^verbatim>\<open>displayAmount: Number(tx.amount) * conversionRate\<close>. The listener is synchronous and
  returns nothing.
\<close>

definition handleCurrencyChange ::
  "('n::times) CurrencyChange \<Rightarrow> 'n HookState \<Rightarrow> ('n, unit) Outcome"
where
  "handleCurrencyChange detail st =
     \<lparr> state = st\<lparr> currentCurrency := \<lparr> code = code detail, symbol = symbol detail \<rparr>,
                     transactions :=
                       map (\<lambda>tx. tx\<lparr> displayAmount :=
                                       Some (Number (amount tx) * conversionRate detail) \<rparr>)
                           (transactions st) \<rparr>,
       effects = [],
       returned = Undefined \<rparr>"

subsection \<open>Calls to the remote store\<close>

text \<open>
  An awaited call either resolves with \<^verbatim>\<open>{ data, error }\<close> or rejects, and a rejection
  is thrown at the \<^verbatim>\<open>await\<close>. The outcome of each call is an argument of the
  operation that makes it, so a statement about an operation ranges over everything the
  store can answer.
\<close>

record 'n Response =
  data :: "'n Transaction list option"
  error :: "Err option"

datatype 'a Await = Resolved 'a | Rejected Err

definition eq :: "string \<Rightarrow> string \<Rightarrow> Filter list \<Rightarrow> Filter list" where
  "eq col v fs = fs @ [Eq col v]"

definition gte :: "string \<Rightarrow> string \<Rightarrow> Query \<Rightarrow> Query" where
  "gte col v q = q\<lparr> filters := filters q @ [Gte col v] \<rparr>"

definition lte :: "string \<Rightarrow> string \<Rightarrow> Query \<Rightarrow> Query" where
  "lte col v q = q\<lparr> filters := filters q @ [Lte col v] \<rparr>"

subsection \<open>Dates\<close>

definition digit_char :: "nat \<Rightarrow> char" where
  "digit_char d = ''0123456789'' ! (d mod 10)"

fun digits :: "nat \<Rightarrow> string" where
  "digits n = (if n < 10 then [digit_char n] else digits (n div 10) @ [digit_char (n mod 10)])"

declare digits.simps [simp del]

definition padStart :: "nat \<Rightarrow> string \<Rightarrow> string" where
  "padStart w s = replicate (w - length s) CHR ''0'' @ s"

text \<open>
  \<^verbatim>\<open>Date.prototype.toISOString\<close>: \<^verbatim>\<open>YYYY-MM-DDTHH:mm:ss.sssZ\<close> in UTC, the year with six
  digits and a sign outside 0..9999; a \<^verbatim>\<open>RangeError\<close> for the invalid date.
\<close>

definition year_text :: "int \<Rightarrow> string" where
  "year_text y =
     (if 0 \<le> y \<and> y \<le> 9999 then padStart 4 (digits (nat y))
      else (if y < 0 then ''-'' else ''+'') @ padStart 6 (digits (nat \<bar>y\<bar>)))"

definition toISOString :: "Date \<Rightarrow> Err + string" where
  "toISOString d =
     (case d of
        InvalidDate \<Rightarrow> Inl RangeError
      | ValidDate f \<Rightarrow>
          Inr (year_text (utcFullYear f)
               @ ''-'' @ padStart 2 (digits (utcMonth f + 1))
               @ ''-'' @ padStart 2 (digits (utcDate f))
               @ ''T'' @ padStart 2 (digits (utcHours f))
               @ '':'' @ padStart 2 (digits (utcMinutes f))
               @ '':'' @ padStart 2 (digits (utcSeconds f))
               @ ''.'' @ padStart 3 (digits (utcMilliseconds f))
               @ ''Z''))"

text \<open>\<^verbatim>\<open>s.split(c)[0]\<close>: the text before the first \<open>c\<close>, all of \<open>s\<close> when it has none.\<close>

definition split_0 :: "char \<Rightarrow> string \<Rightarrow> string" where
  "split_0 c s = takeWhile (\<lambda>x. x \<noteq> c) s"

subsection \<open>\<^verbatim>\<open>fetchTransactions\<close>\<close>

text \<open>
  The statements of the \<^verbatim>\<open>try\<close> block up to the \<^verbatim>\<open>await\<close> build the query; each
  \<^verbatim>\<open>toISOString\<close> can throw, and then no request is sent.
\<close>

definition fetch_query :: "DateRange \<Rightarrow> Err + Query" where
  "fetch_query dr =
     (let query = \<lparr> from_table = ''transactions'', select_columns = ''*'',
                    order_by = [\<lparr> column = ''transaction_date'', ascending = False \<rparr>],
                    filters = [] \<rparr>
      in case (case start dr of
                 None \<Rightarrow> Inr query
               | Some d \<Rightarrow>
                   (case toISOString d of
                      Inl e \<Rightarrow> Inl e
                    | Inr s \<Rightarrow> Inr (gte ''transaction_date'' (split_0 CHR ''T'' s) query)))
         of Inl e \<Rightarrow> Inl e
          | Inr query \<Rightarrow>
              (case end_range dr of
                 None \<Rightarrow> Inr query
               | Some d \<Rightarrow>
                   (case toISOString d of
                      Inl e \<Rightarrow> Inl e
                    | Inr s \<Rightarrow> Inr (lte ''transaction_date'' (split_0 CHR ''T'' s) query))))"

text \<open>
  The \<^verbatim>\<open>try\<close> block: the requests sent, and the rows to cache or the exception thrown.
\<close>

definition fetch_try ::
  "DateRange \<Rightarrow> 'n Response Await \<Rightarrow> 'n Request list \<times> (Err + 'n Transaction list)"
where
  "fetch_try dr answer =
     (case fetch_query dr of
        Inl e \<Rightarrow> ([], Inl e)
      | Inr query \<Rightarrow>
          (case answer of
             Rejected e \<Rightarrow> ([Select query], Inl e)
           | Resolved r \<Rightarrow>
               (case error r of
                  Some e \<Rightarrow> ([Select query], Inl e)
                | None \<Rightarrow>
                    ([Select query],
                     Inr (map (\<lambda>tx. tx\<lparr> displayAmount := Some (amount tx) \<rparr>)
                              (case data r of None \<Rightarrow> [] | Some rows \<Rightarrow> rows))))))"

text \<open>
  \<^verbatim>\<open>setLoading(true)\<close> comes before the \<^verbatim>\<open>try\<close>, \<^verbatim>\<open>setLoading(false)\<close> in its
  \<^verbatim>\<open>finally\<close>.
\<close>

definition fetchTransactions ::
  "'n Response Await \<Rightarrow> 'n HookState \<Rightarrow> ('n, unit) Outcome"
where
  "fetchTransactions answer st =
     (case user st of
        None \<Rightarrow> \<lparr> state = st, effects = [], returned = Undefined \<rparr>
      | Some u \<Rightarrow>
          (case fetch_try (dateRange st) answer of
             (calls, Inr processedData) \<Rightarrow>
               \<lparr> state = (st\<lparr> loading := True \<rparr>)
                           \<lparr> transactions := processedData, loading := False \<rparr>,
                 effects = map StoreCall calls,
                 returned = Undefined \<rparr>
           | (calls, Inl e) \<Rightarrow>
               \<lparr> state = (st\<lparr> loading := True \<rparr>)\<lparr> loading := False \<rparr>,
                 effects = map StoreCall calls
                           @ [ConsoleError ''Error fetching transactions:'' e,
                              ToastError ''Failed to load transactions'' None],
                 returned = Undefined \<rparr>))"

subsection \<open>\<^verbatim>\<open>addTransaction\<close>, \<^verbatim>\<open>updateTransaction\<close>, \<^verbatim>\<open>deleteTransaction\<close>\<close>

definition type_name :: "TxType \<Rightarrow> string" where
  "type_name t = (case t of Income \<Rightarrow> ''income'' | Expense \<Rightarrow> ''expense'')"

text \<open>The rupee sign of the log lines, in UTF-8.\<close>

definition rupee :: string where
  "rupee = [CHR 0xE2, CHR 0x82, CHR 0xB9]"

text \<open>
  The rows written to \<^verbatim>\<open>activity_logs\<close>. \<open>toString\<close> is the host's conversion of a
  number inside a template literal; \<^verbatim>\<open>updates.amount || ''\<close> is empty for a missing
  amount and for 0.
\<close>

definition added_log :: "('n \<Rightarrow> string) \<Rightarrow> User \<Rightarrow> 'n NewTransaction \<Rightarrow> ActivityLog" where
  "added_log toString u newTransaction =
     \<lparr> user_id_log = id_user u, activity_type = ''transaction'',
       description_log = ''Added new '' @ type_name (type_tx newTransaction)
          @ '': '' @ rupee @ toString (amount newTransaction)
          @ '' - '' @ category newTransaction \<rparr>"

definition updated_log :: "('n \<Rightarrow> string) \<Rightarrow> User \<Rightarrow> ('n::zero) Updates \<Rightarrow> ActivityLog" where
  "updated_log toString u updates =
     \<lparr> user_id_log = id_user u, activity_type = ''transaction'',
       description_log = ''Updated ''
          @ (case type_upd updates of None \<Rightarrow> ''transaction'' | Some t \<Rightarrow> type_name t)
          @ '': '' @ rupee
          @ (case amount_upd updates of
               None \<Rightarrow> []
             | Some a \<Rightarrow> if a = 0 then [] else toString a) \<rparr>"

definition deleted_log :: "User \<Rightarrow> ActivityLog" where
  "deleted_log u =
     \<lparr> user_id_log = id_user u, activity_type = ''transaction'',
       description_log = ''Deleted transaction'' \<rparr>"

text \<open>The \<^verbatim>\<open>className\<close> of the toasts.\<close>

definition green :: "string option" where
  "green = Some ''bg-green-100 text-green-800 border-green-200''"

definition red :: "string option" where
  "red = Some ''bg-red-100 text-red-800 border-red-200''"

text \<open>
  \<^verbatim>\<open>data[0]\<close> with the property read \<^verbatim>\<open>data[0].amount\<close>: a \<^verbatim>\<open>TypeError\<close> when
  \<^verbatim>\<open>data\<close> is \<^verbatim>\<open>null\<close> or has no first element.
\<close>

definition first_row :: "'n Response \<Rightarrow> Err + 'n Transaction" where
  "first_row r =
     (case data r of
        None \<Rightarrow> Inl TypeError
      | Some [] \<Rightarrow> Inl TypeError
      | Some (row # _) \<Rightarrow> Inr (row\<lparr> displayAmount := Some (amount row) \<rparr>))"

text \<open>
  The part of a \<^verbatim>\<open>try\<close> block shared by the two operations that cache a returned row:
  the first request and its \<^verbatim>\<open>if (error) throw error\<close>, the insert into
  \<^verbatim>\<open>activity_logs\<close>, whose resolved value is dropped, and the object to cache.
\<close>

definition mutate_try ::
  "'n Request \<Rightarrow> ActivityLog \<Rightarrow> 'n Response Await \<Rightarrow> 'n Response Await
     \<Rightarrow> 'n Request list \<times> (Err + 'n Transaction)"
where
  "mutate_try request entry answer log_answer =
     (case answer of
        Rejected e \<Rightarrow> ([request], Inl e)
      | Resolved r \<Rightarrow>
          (case error r of
             Some e \<Rightarrow> ([request], Inl e)
           | None \<Rightarrow>
               (case log_answer of
                  Rejected e \<Rightarrow> ([request, InsertActivityLogs entry], Inl e)
                | Resolved _ \<Rightarrow> ([request, InsertActivityLogs entry], first_row r))))"

definition addTransaction ::
  "('n \<Rightarrow> string) \<Rightarrow> 'n NewTransaction \<Rightarrow> 'n Response Await \<Rightarrow> 'n Response Await
     \<Rightarrow> 'n HookState \<Rightarrow> ('n, 'n Transaction) Outcome"
where
  "addTransaction toString newTransaction answer log_answer st =
     (case user st of
        None \<Rightarrow> \<lparr> state = st, effects = [], returned = Undefined \<rparr>
      | Some u \<Rightarrow>
          (case mutate_try
                  (InsertTransactions
                     (NewTransaction.extend newTransaction (InsertRow.fields (id_user u))))
                  (added_log toString u newTransaction)
                  answer log_answer
           of (calls, Inr newTx) \<Rightarrow>
               \<lparr> state = st\<lparr> transactions := newTx # transactions st \<rparr>,
                 effects = map StoreCall calls
                   @ [ToastSuccess
                        ((if type_tx newTransaction = Income then ''Income'' else ''Expense'')
                         @ '' added successfully'') green],
                 returned = Value newTx \<rparr>
            | (calls, Inl e) \<Rightarrow>
               \<lparr> state = st,
                 effects = map StoreCall calls
                   @ [ConsoleError ''Error adding transaction:'' e,
                      ToastError ''Failed to add transaction'' red],
                 returned = Null \<rparr>))"

definition updateTransaction ::
  "('n \<Rightarrow> string) \<Rightarrow> string \<Rightarrow> ('n::zero) Updates \<Rightarrow> 'n Response Await \<Rightarrow> 'n Response Await
     \<Rightarrow> 'n HookState \<Rightarrow> ('n, 'n Transaction) Outcome"
where
  "updateTransaction toString id' updates answer log_answer st =
     (case user st of
        None \<Rightarrow> \<lparr> state = st, effects = [], returned = Undefined \<rparr>
      | Some u \<Rightarrow>
          (case mutate_try
                  (UpdateTransactions updates (eq ''id'' id' []))
                  (updated_log toString u updates)
                  answer log_answer
           of (calls, Inr updatedTx) \<Rightarrow>
               \<lparr> state = st\<lparr> transactions :=
                               map (\<lambda>transaction.
                                      if id_tx transaction = id' then updatedTx else transaction)
                                   (transactions st) \<rparr>,
                 effects = map StoreCall calls
                   @ [ToastSuccess ''Transaction updated successfully'' green],
                 returned = Value updatedTx \<rparr>
            | (calls, Inl e) \<Rightarrow>
               \<lparr> state = st,
                 effects = map StoreCall calls
                   @ [ConsoleError ''Error updating transaction:'' e,
                      ToastError ''Failed to update transaction'' red],
                 returned = Null \<rparr>))"

definition delete_try ::
  "'n Request \<Rightarrow> ActivityLog \<Rightarrow> 'n Response Await \<Rightarrow> 'n Response Await
     \<Rightarrow> 'n Request list \<times> (Err + unit)"
where
  "delete_try request entry answer log_answer =
     (case answer of
        Rejected e \<Rightarrow> ([request], Inl e)
      | Resolved r \<Rightarrow>
          (case error r of
             Some e \<Rightarrow> ([request], Inl e)
           | None \<Rightarrow>
               (case log_answer of
                  Rejected e \<Rightarrow> ([request, InsertActivityLogs entry], Inl e)
                | Resolved _ \<Rightarrow> ([request, InsertActivityLogs entry], Inr ()))))"

definition deleteTransaction ::
  "string \<Rightarrow> 'n Response Await \<Rightarrow> 'n Response Await \<Rightarrow> 'n HookState \<Rightarrow> ('n, bool) Outcome"
where
  "deleteTransaction id' answer log_answer st =
     (case user st of
        None \<Rightarrow> \<lparr> state = st, effects = [], returned = Undefined \<rparr>
      | Some u \<Rightarrow>
          (case delete_try
                  (DeleteTransactions (eq ''id'' id' []))
                  (deleted_log u)
                  answer log_answer
           of (calls, Inr _) \<Rightarrow>
               \<lparr> state = st\<lparr> transactions :=
                               filter (\<lambda>transaction. id_tx transaction \<noteq> id')
                                      (transactions st) \<rparr>,
                 effects = map StoreCall calls
                   @ [ToastSuccess ''Transaction deleted successfully'' green],
                 returned = Value True \<rparr>
            | (calls, Inl e) \<Rightarrow>
               \<lparr> state = st,
                 effects = map StoreCall calls
                   @ [ConsoleError ''Error deleting transaction:'' e,
                      ToastError ''Failed to delete transaction'' red],
                 returned = Value False \<rparr>))"

subsection \<open>The host's number rendering\<close>








subsection \<open>The read contract of the remote store\<close>

text \<open>
  Modelled from the spec: the remote store answering a read is not part of the hook. Its
  contract (section 6) is a row-based read with filter predicates (equality, \<open>\<ge>\<close> and
  \<open>\<le>\<close> on a column) and a single sort key. A list of rows answers a query on a table
  when it holds exactly the rows of the table that pass every filter, each as often as
  the table has it, in the order the first sort key asks for. Dates are compared as their
  \<^verbatim>\<open>YYYY-MM-DD\<close> text.
\<close>

definition column_value :: "string \<Rightarrow> 'n Transaction \<Rightarrow> string option" where
  "column_value c r =
     (if c = ''id'' then Some (id_tx r)
      else if c = ''user_id'' then Some (user_id r)
      else if c = ''category'' then Some (category r)
      else if c = ''transaction_date'' then Some (transaction_date r)
      else if c = ''created_at'' then Some (created_at r)
      else None)"

fun satisfies :: "'n Transaction \<Rightarrow> Filter \<Rightarrow> bool" where
  "satisfies r (Eq c v) = (column_value c r = Some v)"
| "satisfies r (Gte c v) = (case column_value c r of None \<Rightarrow> False | Some x \<Rightarrow> v \<le> x)"
| "satisfies r (Lte c v) = (case column_value c r of None \<Rightarrow> False | Some x \<Rightarrow> x \<le> v)"

definition in_order :: "OrderBy \<Rightarrow> 'n Transaction \<Rightarrow> 'n Transaction \<Rightarrow> bool" where
  "in_order ob a b =
     (case (column_value (column ob) a, column_value (column ob) b) of
        (Some x, Some y) \<Rightarrow> if ascending ob then x \<le> y else y \<le> x
      | _ \<Rightarrow> True)"

definition answers :: "Query \<Rightarrow> 'n Transaction list \<Rightarrow> 'n Transaction list \<Rightarrow> bool" where
  "answers q table result =
     (mset result = mset (filter (\<lambda>r. list_all (satisfies r) (filters q)) table)
      \<and> (case order_by q of [] \<Rightarrow> True | ob # _ \<Rightarrow> sorted_wrt (in_order ob) result))"

subsection \<open>Notions used in the statements\<close>

text \<open>The date portion of a valid date: year, month and day in UTC, \<^verbatim>\<open>YYYY-MM-DD\<close>.\<close>

definition date_portion :: "DateFields \<Rightarrow> string" where
  "date_portion f =
     year_text (utcFullYear f)
     @ ''-'' @ padStart 2 (digits (utcMonth f + 1))
     @ ''-'' @ padStart 2 (digits (utcDate f))"

text \<open>
  A read of every column of \<^verbatim>\<open>transactions\<close>, newest date first, between two optional
  dates, with no other filter.
\<close>

definition range_query :: "DateFields option \<Rightarrow> DateFields option \<Rightarrow> Query" where
  "range_query lo hi =
     \<lparr> from_table = ''transactions'', select_columns = ''*'',
       order_by = [\<lparr> column = ''transaction_date'', ascending = False \<rparr>],
       filters = (case lo of None \<Rightarrow> [] | Some f \<Rightarrow> [Gte ''transaction_date'' (date_portion f)])
               @ (case hi of None \<Rightarrow> [] | Some f \<Rightarrow> [Lte ''transaction_date'' (date_portion f)]) \<rparr>"

text \<open>The options the hook passes to \<^verbatim>\<open>toLocaleString\<close>.\<close>

abbreviation two_digits :: NumberFormatOptions where
  "two_digits \<equiv> \<lparr> minimumFractionDigits = Some 2, maximumFractionDigits = Some 2 \<rparr>"


text \<open>
  What \<^verbatim>\<open>const { data, error } = await \<dots>; if (error) throw error;\<close> throws: the
  rejection of the call, or the \<^verbatim>\<open>error\<close> the store reports in its answer.
\<close>

definition failure :: "'n Response Await \<Rightarrow> Err option" where
  "failure answer = (case answer of Rejected e \<Rightarrow> Some e | Resolved r \<Rightarrow> error r)"

subsection \<open>Sample values\<close>

text \<open>A signed-in user, three rows of the store and the states used as concrete inputs.\<close>

definition alice :: User where
  "alice = \<lparr> id_user = ''u1'' \<rparr>"

definition row_salary :: "rat Transaction" where
  "row_salary =
     \<lparr> type_tx = Income, amount = 100, category = ''salary'', description = None,
       transaction_date = ''2024-01-03'', user_id = ''u1'', id_tx = ''t1'',
       created_at = ''2024-01-03T09:00:00Z'', displayAmount = None \<rparr>"

definition row_food :: "rat Transaction" where
  "row_food =
     \<lparr> type_tx = Expense, amount = 40, category = ''food'', description = Some ''lunch'',
       transaction_date = ''2024-01-05'', user_id = ''u1'', id_tx = ''t2'',
       created_at = ''2024-01-05T13:00:00Z'', displayAmount = None \<rparr>"

definition row_stranger :: "rat Transaction" where
  "row_stranger =
     \<lparr> type_tx = Expense, amount = 7, category = ''books'', description = None,
       transaction_date = ''2024-01-04'', user_id = ''u2'', id_tx = ''t3'',
       created_at = ''2024-01-04T10:00:00Z'', displayAmount = None \<rparr>"

definition cached :: "'n Transaction \<Rightarrow> 'n Transaction" where
  "cached row = row\<lparr> displayAmount := Some (amount row) \<rparr>"

definition dollars :: Currency where
  "dollars = \<lparr> code = ''USD'', symbol = ''$'' \<rparr>"

definition no_range :: DateRange where
  "no_range = \<lparr> start = None, end_range = None \<rparr>"

definition jan_4 :: DateFields where
  "jan_4 = \<lparr> utcFullYear = 2024, utcMonth = 0, utcDate = 4, utcHours = 18, utcMinutes = 30,
             utcSeconds = 0, utcMilliseconds = 0 \<rparr>"

definition signed_in :: "rat HookState" where
  "signed_in =
     \<lparr> transactions = [cached row_food, cached row_salary], loading = False,
       dateRange = no_range, user = Some alice, currentCurrency = dollars \<rparr>"

definition new_coffee :: "rat NewTransaction" where
  "new_coffee =
     \<lparr> type_tx = Expense, amount = 25, category = ''food'', description = None,
       transaction_date = ''2024-01-05'' \<rparr>"

definition row_coffee :: "rat Transaction" where
  "row_coffee =
     \<lparr> type_tx = Expense, amount = 25, category = ''food'', description = None,
       transaction_date = ''2024-01-05'', user_id = ''u1'', id_tx = ''t4'',
       created_at = ''2024-01-05T19:00:00Z'', displayAmount = None \<rparr>"

definition succeeded :: "'n Transaction list \<Rightarrow> 'n Response Await" where
  "succeeded rows = Resolved \<lparr> data = Some rows, error = None \<rparr>"

definition refused :: "string \<Rightarrow> 'n Response Await" where
  "refused msg = Resolved \<lparr> data = None, error = Some (StoreError msg) \<rparr>"

definition acknowledged :: "'n Response Await" where
  "acknowledged = Resolved \<lparr> data = None, error = None \<rparr>"

text \<open>\<^verbatim>\<open>Number.prototype.toString\<close> at a whole number that is not negative.\<close>

definition toString_whole :: "rat \<Rightarrow> string" where
  "toString_whole x = digits (nat \<lfloor>x\<rfloor>)"

definition raise_food :: "rat Updates" where
  "raise_food = \<lparr> type_upd = None, amount_upd = Some 45, category_upd = None,
                  description_upd = None, transaction_date_upd = None \<rparr>"

section \<open>Properties\<close>

subsection \<open>The summary\<close>

lemma foldl_amount_map:
  "foldl (\<lambda>sum t. sum + Number (amount t)) a xs = foldl (+) a (map amount xs)"
  by (simp add: foldl_map Number_def)

text \<open>
  Claim C3. For every cache \<open>C\<close> and display currency \<open>X\<close>, the income of the summary is
  the sum of \<open>amount\<close> over the entries of \<open>C\<close> of kind income, the expenses are the sum
  over the entries of kind expense, and the balance is income minus expenses. The sum is
  the one \<^verbatim>\<open>reduce\<close> computes: it starts at 0 and adds the amounts in the order of the
  cache, so that the empty cache has the totals 0 and an entry put at the end adds its
  amount to the total of its kind and leaves the other total. No law of arithmetic is
  used: the statement holds for floating-point numbers as it holds for exact ones.
\<close>

theorem summary_totals:
  fixes C :: "('n::{zero,plus,minus}) Transaction list"
  shows "income (financialSummary host C X)
           = foldl (+) 0 (map amount (filter (\<lambda>t. type_tx t = Income) C))
       \<and> expenses (financialSummary host C X)
           = foldl (+) 0 (map amount (filter (\<lambda>t. type_tx t = Expense) C))
       \<and> balance (financialSummary host C X)
           = income (financialSummary host C X) - expenses (financialSummary host C X)
       \<and> income (financialSummary host [] X) = 0
       \<and> expenses (financialSummary host [] X) = 0
       \<and> income (financialSummary host (C @ [t]) X)
           = (if type_tx t = Income then income (financialSummary host C X) + amount t
              else income (financialSummary host C X))
       \<and> expenses (financialSummary host (C @ [t]) X)
           = (if type_tx t = Expense then expenses (financialSummary host C X) + amount t
              else expenses (financialSummary host C X))"
  by (simp add: financialSummary_def Let_def foldl_amount_map)

text \<open>In exact arithmetic the order of the additions does not matter.\<close>

lemma foldl_amount_sum:
  fixes a :: "'n::monoid_add"
  shows "foldl (\<lambda>sum t. sum + Number (amount t)) a xs = a + sum_list (map amount xs)"
  by (induction xs arbitrary: a) (simp_all add: Number_def add.assoc)

lemma summary_totals_exact:
  fixes C :: "('n::{monoid_add,minus}) Transaction list"
  shows "income (financialSummary host C X)
           = sum_list (map amount (filter (\<lambda>t. type_tx t = Income) C))
       \<and> expenses (financialSummary host C X)
           = sum_list (map amount (filter (\<lambda>t. type_tx t = Expense) C))"
  by (simp add: financialSummary_def Let_def foldl_amount_sum)

subsection \<open>The formatted strings\<close>

lemma digit_char_digit: "digit_char d \<in> set ''0123456789''"
proof -
  have "d mod 10 < length ''0123456789''" by simp
  then show ?thesis unfolding digit_char_def by (rule nth_mem)
qed

















subsection \<open>The currency-change listener\<close>

text \<open>
  Claim C2. Handling a currency-change event with \<open>code\<close>, \<open>symbol\<close> and
  \<open>conversionRate\<close> sets the active display currency to the code and symbol, gives every
  cached entry the \<open>displayAmount\<close> \<open>amount * conversionRate\<close>, leaves every entry's
  amount, and every field but \<open>displayAmount\<close>, as it was, and sends nothing to the
  remote store.
\<close>

theorem currency_change_redisplays:
  fixes st :: "('n::times) HookState"
  shows "currentCurrency (state (handleCurrencyChange e st))
           = \<lparr> code = code e, symbol = symbol e \<rparr>
       \<and> map displayAmount (transactions (state (handleCurrencyChange e st)))
           = map (\<lambda>t. Some (amount t * conversionRate e)) (transactions st)
       \<and> map amount (transactions (state (handleCurrencyChange e st)))
           = map amount (transactions st)
       \<and> map (\<lambda>t. t\<lparr> displayAmount := None \<rparr>) (transactions (state (handleCurrencyChange e st)))
           = map (\<lambda>t. t\<lparr> displayAmount := None \<rparr>) (transactions st)
       \<and> store_calls (effects (handleCurrencyChange e st)) = []"
  by (simp add: handleCurrencyChange_def Number_def comp_def)

lemma filter_type_redisplay:
  "filter (\<lambda>t. type_tx t = k) (map (\<lambda>tx. tx\<lparr> displayAmount := d tx \<rparr>) xs)
     = map (\<lambda>tx. tx\<lparr> displayAmount := d tx \<rparr>) (filter (\<lambda>t. type_tx t = k) xs)"
  by (induction xs) simp_all

lemma foldl_amount_redisplay:
  "foldl (\<lambda>sum t. sum + Number (amount t)) a (map (\<lambda>tx. tx\<lparr> displayAmount := d tx \<rparr>) xs)
     = foldl (\<lambda>sum t. sum + Number (amount t)) a xs"
  by (induction xs arbitrary: a) simp_all

lemma financialSummary_redisplay:
  "financialSummary f (map (\<lambda>tx. tx\<lparr> displayAmount := d tx \<rparr>) xs) cur
     = financialSummary f xs cur"
  by (simp add: financialSummary_def filter_type_redisplay foldl_amount_redisplay)

text \<open>
  Claim C10. The summary does not read \<open>displayAmount\<close>: it is the same for a cache whose
  \<open>displayAmount\<close> fields are replaced in any way. So after a currency-change event with
  any conversion rate the income, expenses and balance are the numbers they were, and
  each formatted string is the new symbol followed by the host's rendering of the same
  number that followed the old symbol before.
\<close>

theorem summary_unchanged_by_currency_change:
  fixes st :: "('n::{zero,plus,minus,times}) HookState"
  shows "financialSummary f (map (\<lambda>tx. tx\<lparr> displayAmount := d tx \<rparr>) (transactions st)) X
           = financialSummary f (transactions st) X
       \<and> income (getTransactionSummary f (state (handleCurrencyChange e st)))
           = income (getTransactionSummary f st)
       \<and> expenses (getTransactionSummary f (state (handleCurrencyChange e st)))
           = expenses (getTransactionSummary f st)
       \<and> balance (getTransactionSummary f (state (handleCurrencyChange e st)))
           = balance (getTransactionSummary f st)
       \<and> formattedIncome (getTransactionSummary f st)
           = symbol (currentCurrency st) @ f (income (getTransactionSummary f st)) None two_digits
       \<and> formattedIncome (getTransactionSummary f (state (handleCurrencyChange e st)))
           = symbol e @ f (income (getTransactionSummary f st)) None two_digits
       \<and> formattedExpenses (getTransactionSummary f st)
           = symbol (currentCurrency st) @ f (expenses (getTransactionSummary f st)) None two_digits
       \<and> formattedExpenses (getTransactionSummary f (state (handleCurrencyChange e st)))
           = symbol e @ f (expenses (getTransactionSummary f st)) None two_digits
       \<and> formattedBalance (getTransactionSummary f st)
           = symbol (currentCurrency st) @ f (balance (getTransactionSummary f st)) None two_digits
       \<and> formattedBalance (getTransactionSummary f (state (handleCurrencyChange e st)))
           = symbol e @ f (balance (getTransactionSummary f st)) None two_digits"
proof -
  have after: "getTransactionSummary f (state (handleCurrencyChange e st))
      = financialSummary f (transactions st) \<lparr> code = code e, symbol = symbol e \<rparr>"
    by (simp add: getTransactionSummary_def handleCurrencyChange_def financialSummary_redisplay)
  show ?thesis
    unfolding after
    by (simp add: financialSummary_redisplay) (simp add: getTransactionSummary_def
        financialSummary_def Let_def)
qed

subsection \<open>The query of a fetch\<close>

lemma digit_char_not_T: "digit_char d \<noteq> CHR ''T''"
  using digit_char_digit [of d] by auto

lemma digits_no_T: "CHR ''T'' \<notin> set (digits n)"
proof (induction n rule: digits.induct)
  case (1 n)
  show ?case
  proof (cases "n < 10")
    case True
    then show ?thesis
      using digit_char_not_T [of n] by (subst digits.simps) auto
  next
    case False
    then show ?thesis
      using 1 digit_char_not_T [of "n mod 10"] by (subst digits.simps) auto
  qed
qed

lemma padStart_no_T: "CHR ''T'' \<notin> set (padStart w (digits n))"
  using digits_no_T [of n] by (auto simp add: padStart_def)

lemma year_text_no_T: "CHR ''T'' \<notin> set (year_text y)"
  using padStart_no_T by (simp add: year_text_def)

lemma date_portion_no_T: "CHR ''T'' \<notin> set (date_portion f)"
  using padStart_no_T year_text_no_T by (simp add: date_portion_def)

lemma split_0_prefix: "c \<notin> set a \<Longrightarrow> split_0 c (a @ c # rest) = a"
  by (induction a) (auto simp add: split_0_def)

text \<open>The text sent as a bound is the date portion: the time of day never reaches it.\<close>

lemma split_0_toISOString:
  "toISOString (ValidDate f) = Inr s \<Longrightarrow> split_0 CHR ''T'' s = date_portion f"
proof -
  assume "toISOString (ValidDate f) = Inr s"
  then have "\<exists>rest. s = date_portion f @ CHR ''T'' # rest"
    by (auto simp add: toISOString_def date_portion_def)
  then show ?thesis
    using split_0_prefix [OF date_portion_no_T] by auto
qed

lemma fetch_query_valid:
  "fetch_query \<lparr> start = map_option ValidDate lo, end_range = map_option ValidDate hi \<rparr>
     = Inr (range_query lo hi)"
proof -
  define iso where "iso f = projr (toISOString (ValidDate f))" for f
  have iso: "toISOString (ValidDate f) = Inr (iso f)" for f
    by (simp add: iso_def toISOString_def)
  have portion: "split_0 CHR ''T'' (iso f) = date_portion f" for f
    using split_0_toISOString [OF iso] .
  show ?thesis
    by (cases lo; cases hi)
       (simp_all add: fetch_query_def Let_def iso portion range_query_def gte_def lte_def)
qed

lemma column_value_date [simp]:
  "column_value ''transaction_date'' r = Some (transaction_date r)"
  by (simp add: column_value_def)

lemma satisfies_range:
  "list_all (satisfies r) (filters (range_query lo hi))
     \<longleftrightarrow> (\<forall>f. lo = Some f \<longrightarrow> date_portion f \<le> transaction_date r)
       \<and> (\<forall>f. hi = Some f \<longrightarrow> transaction_date r \<le> date_portion f)"
  by (cases lo; cases hi) (simp_all add: range_query_def)

lemma in_order_date:
  "in_order \<lparr> column = ''transaction_date'', ascending = False \<rparr> a b
     \<longleftrightarrow> transaction_date b \<le> transaction_date a"
  by (simp add: in_order_def)

lemma answers_range:
  assumes "answers (range_query lo hi) table result"
  shows "(\<forall>r. r \<in> set result \<longleftrightarrow>
              r \<in> set table
              \<and> (\<forall>f. lo = Some f \<longrightarrow> date_portion f \<le> transaction_date r)
              \<and> (\<forall>f. hi = Some f \<longrightarrow> transaction_date r \<le> date_portion f))
       \<and> sorted_wrt (\<lambda>a b. transaction_date b \<le> transaction_date a) result"
proof (rule conjI)
  from assms have "mset result
      = mset (filter (\<lambda>r. list_all (satisfies r) (filters (range_query lo hi))) table)"
    by (simp add: answers_def)
  then have "set result
      = set (filter (\<lambda>r. list_all (satisfies r) (filters (range_query lo hi))) table)"
    by (rule mset_eq_setD)
  then show "\<forall>r. r \<in> set result \<longleftrightarrow>
              r \<in> set table
              \<and> (\<forall>f. lo = Some f \<longrightarrow> date_portion f \<le> transaction_date r)
              \<and> (\<forall>f. hi = Some f \<longrightarrow> transaction_date r \<le> date_portion f)"
    by (simp add: satisfies_range)
next
  from assms
  have "sorted_wrt (in_order \<lparr> column = ''transaction_date'', ascending = False \<rparr>) result"
    by (simp add: answers_def range_query_def)
  then show "sorted_wrt (\<lambda>a b. transaction_date b \<le> transaction_date a) result"
    by (simp add: in_order_date [abs_def])
qed

lemma store_calls_map: "store_calls (map StoreCall calls @ es) = calls @ store_calls es"
  by (induction calls) simp_all

lemma fetch_try_calls:
  "fetch_query dr = Inr q \<Longrightarrow> fst (fetch_try dr answer) = [Select q]"
  by (cases answer) (simp_all add: fetch_try_def split: option.splits)

lemma fetch_calls:
  "user st = Some u \<Longrightarrow>
     store_calls (effects (fetchTransactions answer st)) = fst (fetch_try (dateRange st) answer)"
proof -
  assume u: "user st = Some u"
  obtain calls res where t: "fetch_try (dateRange st) answer = (calls, res)"
    by (cases "fetch_try (dateRange st) answer")
  show ?thesis
    using store_calls_map [of calls "[]"]
    by (cases res) (simp_all add: fetchTransactions_def u t store_calls_map)
qed

lemma range_query_no_owner:
  "f \<in> set (filters (range_query lo hi)) \<Longrightarrow> f \<noteq> Eq ''user_id'' v"
  by (cases lo; cases hi) (auto simp add: range_query_def)

lemma range_query_open: "range_query None None =
    \<lparr> from_table = ''transactions'', select_columns = ''*'',
      order_by = [\<lparr> column = ''transaction_date'', ascending = False \<rparr>], filters = [] \<rparr>"
  by (simp add: range_query_def)

lemma date_portion_jan_4: "date_portion jan_4 = ''2024-01-04''"
  by code_simp

text \<open>
  Claim C1, amended. A fetch with a user signed in and valid dates in the range sends
  the store exactly one request: a read of every column of \<^verbatim>\<open>transactions\<close>, ordered by
  \<^verbatim>\<open>transaction_date\<close> descending, with a filter \<open>\<ge>\<close> the date portion of \<open>range.start\<close>
  and a filter \<open>\<le>\<close> the date portion of \<open>range.end\<close> when the bound is present, and with
  no filter on the owner. An answer to it holds exactly the rows of the table whose date
  lies within the bounds, both inclusive, whoever owns them, newest date first.
\<close>

theorem fetch_sends_range_query:
  assumes "user st = Some u"
      and "start (dateRange st) = map_option ValidDate lo"
      and "end_range (dateRange st) = map_option ValidDate hi"
  shows "store_calls (effects (fetchTransactions answer st)) = [Select (range_query lo hi)]
       \<and> (\<forall>f \<in> set (filters (range_query lo hi)). \<forall>v. f \<noteq> Eq ''user_id'' v)
       \<and> (\<forall>table result. answers (range_query lo hi) table result \<longrightarrow>
            (\<forall>r. r \<in> set result \<longleftrightarrow>
                   r \<in> set table
                   \<and> (\<forall>f. lo = Some f \<longrightarrow> date_portion f \<le> transaction_date r)
                   \<and> (\<forall>f. hi = Some f \<longrightarrow> transaction_date r \<le> date_portion f))
            \<and> sorted_wrt (\<lambda>a b. transaction_date b \<le> transaction_date a) result)"
proof -
  have "dateRange st
      = \<lparr> start = map_option ValidDate lo, end_range = map_option ValidDate hi \<rparr>"
    using assms(2,3) by (cases "dateRange st") simp
  then have "fetch_query (dateRange st) = Inr (range_query lo hi)"
    by (simp only: fetch_query_valid)
  then have sent:
    "store_calls (effects (fetchTransactions answer st)) = [Select (range_query lo hi)]"
    using fetch_calls [OF assms(1)] fetch_try_calls by simp
  have unfiltered: "\<forall>f \<in> set (filters (range_query lo hi)). \<forall>v. f \<noteq> Eq ''user_id'' v"
    using range_query_no_owner by blast
  have meaning: "\<forall>table result. answers (range_query lo hi) table result \<longrightarrow>
            (\<forall>r. r \<in> set result \<longleftrightarrow>
                   r \<in> set table
                   \<and> (\<forall>f. lo = Some f \<longrightarrow> date_portion f \<le> transaction_date r)
                   \<and> (\<forall>f. hi = Some f \<longrightarrow> transaction_date r \<le> date_portion f))
            \<and> sorted_wrt (\<lambda>a b. transaction_date b \<le> transaction_date a)
                 (result :: 'b Transaction list)"
    by (intro allI impI) (rule answers_range)
  show ?thesis
    by (rule conjI [OF sent conjI [OF unfiltered meaning]])
qed

text \<open>
  With 4 January 2024, 18:30 UTC, as the start of the range, the bound sent is
  \<open>2024-01-04\<close>; of three rows the answer keeps the two of that day or later.
\<close>

theorem fetch_sends_range_query_witness:
  "user (signed_in\<lparr> dateRange := \<lparr> start = Some (ValidDate jan_4), end_range = None \<rparr> \<rparr>)
     = Some alice
   \<and> store_calls (effects (fetchTransactions
         (succeeded [row_food, row_stranger])
         (signed_in\<lparr> dateRange := \<lparr> start = Some (ValidDate jan_4), end_range = None \<rparr> \<rparr>)))
       = [Select \<lparr> from_table = ''transactions'', select_columns = ''*'',
                   order_by = [\<lparr> column = ''transaction_date'', ascending = False \<rparr>],
                   filters = [Gte ''transaction_date'' ''2024-01-04''] \<rparr>]
   \<and> answers (range_query (Some jan_4) None)
         [row_salary, row_stranger, row_food] [row_food, row_stranger]
   \<and> row_salary \<notin> set [row_food, row_stranger]
   \<and> sorted_wrt (\<lambda>a b. transaction_date b \<le> transaction_date a) [row_food, row_stranger]"
proof -
  let ?st = "signed_in\<lparr> dateRange := \<lparr> start = Some (ValidDate jan_4), end_range = None \<rparr> \<rparr>"
  have u: "user ?st = Some alice"
    by (simp add: signed_in_def)
  have lo: "start (dateRange ?st) = map_option ValidDate (Some jan_4)"
    by simp
  have hi: "end_range (dateRange ?st) = map_option ValidDate None"
    by simp
  have q: "range_query (Some jan_4) None
      = \<lparr> from_table = ''transactions'', select_columns = ''*'',
          order_by = [\<lparr> column = ''transaction_date'', ascending = False \<rparr>],
          filters = [Gte ''transaction_date'' ''2024-01-04''] \<rparr>"
    by (simp add: range_query_def date_portion_jan_4)
  have answered: "answers (range_query (Some jan_4) None)
         [row_salary, row_stranger, row_food] [row_food, row_stranger]"
    by (simp add: q answers_def in_order_date row_food_def row_stranger_def row_salary_def)
  note fact = fetch_sends_range_query [OF u lo hi, of "succeeded [row_food, row_stranger]"]
  from fact have sent: "store_calls (effects (fetchTransactions
         (succeeded [row_food, row_stranger]) ?st)) = [Select (range_query (Some jan_4) None)]"
    by (rule conjunct1)
  from fact answered
  have "(\<forall>r. r \<in> set [row_food, row_stranger] \<longleftrightarrow>
               r \<in> set [row_salary, row_stranger, row_food]
               \<and> (\<forall>f. Some jan_4 = Some f \<longrightarrow> date_portion f \<le> transaction_date r)
               \<and> (\<forall>f. (None :: DateFields option) = Some f
                      \<longrightarrow> transaction_date r \<le> date_portion f))
        \<and> sorted_wrt (\<lambda>a b. transaction_date b \<le> transaction_date a) [row_food, row_stranger]"
    by blast
  then have "row_salary \<notin> set [row_food, row_stranger]
        \<and> sorted_wrt (\<lambda>a b. transaction_date b \<le> transaction_date a) [row_food, row_stranger]"
    by (simp add: date_portion_jan_4 row_salary_def)
  with u sent answered show ?thesis
    by (simp only: q simp_thms)
qed

text \<open>
  The request carries no owner: with no range its filter list is empty, a table holding
  a row of another user is answered with that row, and the hook caches it.
\<close>

theorem fetch_not_filtered_by_owner:
  "user signed_in = Some alice
   \<and> store_calls (effects (fetchTransactions
         (succeeded [row_food, row_stranger, row_salary]) signed_in))
       = [Select \<lparr> from_table = ''transactions'', select_columns = ''*'',
                   order_by = [\<lparr> column = ''transaction_date'', ascending = False \<rparr>],
                   filters = [] \<rparr>]
   \<and> answers \<lparr> from_table = ''transactions'', select_columns = ''*'',
                order_by = [\<lparr> column = ''transaction_date'', ascending = False \<rparr>],
                filters = [] \<rparr>
         [row_food, row_stranger, row_salary] [row_food, row_stranger, row_salary]
   \<and> user_id row_stranger \<noteq> id_user alice
   \<and> transactions (state (fetchTransactions
         (succeeded [row_food, row_stranger, row_salary]) signed_in))
       = [cached row_food, cached row_stranger, cached row_salary]"
proof -
  have sent: "store_calls (effects (fetchTransactions
         (succeeded [row_food, row_stranger, row_salary]) signed_in))
       = [Select (range_query None None)]"
    by (simp add: fetchTransactions_def signed_in_def no_range_def fetch_try_def fetch_query_def
        succeeded_def range_query_open)
  have answered: "answers (range_query None None)
         [row_food, row_stranger, row_salary] [row_food, row_stranger, row_salary]"
    by (simp add: answers_def range_query_open in_order_date row_food_def row_stranger_def
        row_salary_def)
  have cache: "transactions (state (fetchTransactions
         (succeeded [row_food, row_stranger, row_salary]) signed_in))
       = [cached row_food, cached row_stranger, cached row_salary]"
    by (simp add: fetchTransactions_def signed_in_def no_range_def fetch_try_def fetch_query_def
        succeeded_def cached_def)
  show ?thesis
    using sent answered cache
    by (simp add: range_query_open) (simp add: signed_in_def row_stranger_def alice_def)
qed

subsection \<open>The operations that change the store\<close>

lemma mutate_try_failure:
  "failure answer = Some e \<Longrightarrow> mutate_try request entry answer log_answer = ([request], Inl e)"
  by (cases answer) (simp_all add: mutate_try_def failure_def)

lemma delete_try_failure:
  "failure answer = Some e \<Longrightarrow> delete_try request entry answer log_answer = ([request], Inl e)"
  by (cases answer) (simp_all add: delete_try_def failure_def)

lemma mutate_try_success:
  "mutate_try request entry (Resolved \<lparr> data = Some (row # rest), error = None \<rparr>) (Resolved r')
     = ([request, InsertActivityLogs entry], Inr (row\<lparr> displayAmount := Some (amount row) \<rparr>))"
  by (simp add: mutate_try_def first_row_def)

lemma mutate_try_log_dropped:
  "mutate_try request entry answer (Resolved r') = mutate_try request entry answer acknowledged"
  by (cases answer) (simp_all add: mutate_try_def acknowledged_def split: option.splits)

lemma delete_try_log_dropped:
  "delete_try request entry answer (Resolved r') = delete_try request entry answer acknowledged"
  by (cases answer) (simp_all add: delete_try_def acknowledged_def split: option.splits)

lemma mutate_try_log_rejected:
  "failure answer = None \<Longrightarrow>
     mutate_try request entry answer (Rejected e) = ([request, InsertActivityLogs entry], Inl e)"
  by (cases answer) (simp_all add: mutate_try_def failure_def)

lemma delete_try_log_rejected:
  "failure answer = None \<Longrightarrow>
     delete_try request entry answer (Rejected e) = ([request, InsertActivityLogs entry], Inl e)"
  by (cases answer) (simp_all add: delete_try_def failure_def)

text \<open>
  Claim C4. When the store reports a failure \<open>e\<close> of the request of a create, an update
  or a remove (its answer carries an error, or the call rejects), the operation leaves
  the state, and so the cache, as it was; after the request its only effects are a
  console line and an error toast; and it returns \<^verbatim>\<open>null\<close> (create, update) or
  \<^verbatim>\<open>false\<close> (remove): the exception does not leave the operation.
\<close>

theorem store_failure_leaves_cache:
  assumes "user st = Some u" and "failure answer = Some e"
  shows "state (addTransaction toString newTransaction answer log_answer st) = st
       \<and> returned (addTransaction toString newTransaction answer log_answer st) = Null
       \<and> effects (addTransaction toString newTransaction answer log_answer st)
           = [StoreCall (InsertTransactions
                           (NewTransaction.extend newTransaction (InsertRow.fields (id_user u)))),
              ConsoleError ''Error adding transaction:'' e,
              ToastError ''Failed to add transaction'' red]
       \<and> state (updateTransaction toString id' updates answer log_answer st) = st
       \<and> returned (updateTransaction toString id' updates answer log_answer st) = Null
       \<and> effects (updateTransaction toString id' updates answer log_answer st)
           = [StoreCall (UpdateTransactions updates [Eq ''id'' id']),
              ConsoleError ''Error updating transaction:'' e,
              ToastError ''Failed to update transaction'' red]
       \<and> state (deleteTransaction id' answer log_answer st) = st
       \<and> returned (deleteTransaction id' answer log_answer st) = Value False
       \<and> effects (deleteTransaction id' answer log_answer st)
           = [StoreCall (DeleteTransactions [Eq ''id'' id']),
              ConsoleError ''Error deleting transaction:'' e,
              ToastError ''Failed to delete transaction'' red]"
  using assms
  by (simp add: addTransaction_def updateTransaction_def deleteTransaction_def
      mutate_try_failure delete_try_failure eq_def)

theorem store_failure_leaves_cache_witness:
  "user signed_in = Some alice
   \<and> failure (refused ''offline'' :: rat Response Await) = Some (StoreError ''offline'')
   \<and> state (addTransaction toString_whole new_coffee (refused ''offline'') acknowledged signed_in)
       = signed_in
   \<and> returned (addTransaction toString_whole new_coffee (refused ''offline'') acknowledged
        signed_in) = Null
   \<and> state (deleteTransaction ''t2'' (refused ''offline'') acknowledged signed_in) = signed_in
   \<and> returned (deleteTransaction ''t2'' (refused ''offline'') acknowledged signed_in)
       = Value False"
proof -
  have u: "user signed_in = Some alice"
    by (simp add: signed_in_def)
  have f: "failure (refused ''offline'' :: rat Response Await) = Some (StoreError ''offline'')"
    by (simp add: failure_def refused_def)
  show ?thesis
    using store_failure_leaves_cache [OF u f] u f by simp
qed

text \<open>
  Claim C6, amended. When the insert of a create is answered without error with a row
  and the call that writes the log resolves, the cache is the returned row, with
  \<open>displayAmount\<close> set to its amount, in front of the former cache: one entry longer,
  the entry at index 0 carrying the identifier the store assigned, the former entries
  after it in their order.
\<close>

theorem create_prepends_row:
  assumes "user st = Some u"
  shows "transactions (state (addTransaction toString newTransaction
            (Resolved \<lparr> data = Some (row # rest), error = None \<rparr>) (Resolved r') st))
           = row\<lparr> displayAmount := Some (amount row) \<rparr> # transactions st
       \<and> length (transactions (state (addTransaction toString newTransaction
            (Resolved \<lparr> data = Some (row # rest), error = None \<rparr>) (Resolved r') st)))
           = length (transactions st) + 1
       \<and> id_tx (transactions (state (addTransaction toString newTransaction
            (Resolved \<lparr> data = Some (row # rest), error = None \<rparr>) (Resolved r') st)) ! 0)
           = id_tx row
       \<and> displayAmount (transactions (state (addTransaction toString newTransaction
            (Resolved \<lparr> data = Some (row # rest), error = None \<rparr>) (Resolved r') st)) ! 0)
           = Some (amount (transactions (state (addTransaction toString newTransaction
            (Resolved \<lparr> data = Some (row # rest), error = None \<rparr>) (Resolved r') st)) ! 0))
       \<and> drop 1 (transactions (state (addTransaction toString newTransaction
            (Resolved \<lparr> data = Some (row # rest), error = None \<rparr>) (Resolved r') st)))
           = transactions st"
  using assms by (simp add: addTransaction_def mutate_try_success)

theorem create_prepends_row_witness:
  "user signed_in = Some alice
   \<and> transactions (state (addTransaction toString_whole new_coffee
        (Resolved \<lparr> data = Some [row_coffee], error = None \<rparr>) acknowledged signed_in))
       = [row_coffee\<lparr> displayAmount := Some 25 \<rparr>, cached row_food, cached row_salary]"
proof -
  have u: "user signed_in = Some alice"
    by (simp add: signed_in_def)
  show ?thesis
    using create_prepends_row [OF u, of toString_whole new_coffee row_coffee "[]"
            "\<lparr> data = None, error = None \<rparr>"] u
    by (simp add: acknowledged_def) (simp add: signed_in_def row_coffee_def)
qed

text \<open>
  A create whose insert succeeds at the store and whose log call rejects leaves the
  cache as it was and returns \<^verbatim>\<open>null\<close>.
\<close>

theorem create_with_rejected_log_keeps_cache:
  "user signed_in = Some alice
   \<and> failure (succeeded [row_coffee]) = None
   \<and> transactions (state (addTransaction toString_whole new_coffee (succeeded [row_coffee])
        (Rejected (StoreError ''fetch failed'')) signed_in))
       = [cached row_food, cached row_salary]
   \<and> length (transactions (state (addTransaction toString_whole new_coffee
        (succeeded [row_coffee]) (Rejected (StoreError ''fetch failed'')) signed_in)))
       = length (transactions signed_in)
   \<and> returned (addTransaction toString_whole new_coffee (succeeded [row_coffee])
        (Rejected (StoreError ''fetch failed'')) signed_in) = Null"
  by (simp add: addTransaction_def mutate_try_def succeeded_def failure_def signed_in_def)

text \<open>
  Claim C7, amended. When the request of an update is answered without error with a row
  and the call that writes the log resolves, the cache keeps its length, every entry
  whose identifier is the one given is the returned row (with \<open>displayAmount\<close> set to
  its amount) at the position it had, and every other entry is the entry that was there.
\<close>

theorem update_replaces_in_place:
  assumes "user st = Some u"
  shows "length (transactions (state (updateTransaction toString id' updates
            (Resolved \<lparr> data = Some (row # rest), error = None \<rparr>) (Resolved r') st)))
           = length (transactions st)
       \<and> (\<forall>i < length (transactions st).
            transactions (state (updateTransaction toString id' updates
              (Resolved \<lparr> data = Some (row # rest), error = None \<rparr>) (Resolved r') st)) ! i
            = (if id_tx (transactions st ! i) = id'
               then row\<lparr> displayAmount := Some (amount row) \<rparr>
               else transactions st ! i))"
  using assms by (simp add: updateTransaction_def mutate_try_success)

theorem update_replaces_in_place_witness:
  "user signed_in = Some alice
   \<and> length (transactions signed_in) = 2
   \<and> length (transactions (state (updateTransaction toString_whole ''t2'' raise_food
        (Resolved \<lparr> data = Some [row_food\<lparr> amount := 45 \<rparr>], error = None \<rparr>)
        acknowledged signed_in))) = 2
   \<and> transactions (state (updateTransaction toString_whole ''t2'' raise_food
        (Resolved \<lparr> data = Some [row_food\<lparr> amount := 45 \<rparr>], error = None \<rparr>)
        acknowledged signed_in)) ! 0
       = row_food\<lparr> amount := 45, displayAmount := Some 45 \<rparr>
   \<and> transactions (state (updateTransaction toString_whole ''t2'' raise_food
        (Resolved \<lparr> data = Some [row_food\<lparr> amount := 45 \<rparr>], error = None \<rparr>)
        acknowledged signed_in)) ! 1
       = cached row_salary"
proof -
  have u: "user signed_in = Some alice"
    by (simp add: signed_in_def)
  have cache: "transactions signed_in = [cached row_food, cached row_salary]"
    by (simp add: signed_in_def)
  have ids: "id_tx (cached row_food) = ''t2''" "id_tx (cached row_salary) = ''t1''"
    by (simp_all add: cached_def row_food_def row_salary_def)
  note fact = update_replaces_in_place [OF u, of toString_whole "''t2''" raise_food
                "row_food\<lparr> amount := 45 \<rparr>" "[]" "\<lparr> data = None, error = None \<rparr>",
                folded acknowledged_def]
  from fact have len: "length (transactions (state (updateTransaction toString_whole ''t2''
        raise_food (Resolved \<lparr> data = Some [row_food\<lparr> amount := 45 \<rparr>], error = None \<rparr>)
        acknowledged signed_in))) = 2"
    by (simp add: cache)
  from fact have first: "transactions (state (updateTransaction toString_whole ''t2'' raise_food
        (Resolved \<lparr> data = Some [row_food\<lparr> amount := 45 \<rparr>], error = None \<rparr>)
        acknowledged signed_in)) ! 0
       = row_food\<lparr> amount := 45, displayAmount := Some 45 \<rparr>"
    by (simp add: cache ids)
  have "(1::nat) < length (transactions signed_in)"
    by (simp add: cache)
  with fact have second: "transactions (state (updateTransaction toString_whole ''t2'' raise_food
        (Resolved \<lparr> data = Some [row_food\<lparr> amount := 45 \<rparr>], error = None \<rparr>)
        acknowledged signed_in)) ! 1
       = (if id_tx (transactions signed_in ! 1) = ''t2''
          then row_food\<lparr> amount := 45,
                          displayAmount := Some (amount (row_food\<lparr> amount := 45 \<rparr>)) \<rparr>
          else transactions signed_in ! 1)"
    by blast
  show ?thesis
    using u len first second by (simp add: cache ids)
qed

text \<open>
  An update that succeeds at the store and whose log call rejects replaces nothing: the
  entry with the identifier is still the one cached before, not the returned row.
\<close>

theorem update_with_rejected_log_replaces_nothing:
  "user signed_in = Some alice
   \<and> failure (succeeded [row_food\<lparr> amount := 45 \<rparr>]) = None
   \<and> transactions (state (updateTransaction toString_whole ''t2'' raise_food
        (succeeded [row_food\<lparr> amount := 45 \<rparr>]) (Rejected (StoreError ''fetch failed''))
        signed_in))
       = [cached row_food, cached row_salary]
   \<and> id_tx (cached row_food) = ''t2''
   \<and> cached row_food \<noteq> row_food\<lparr> amount := 45, displayAmount := Some 45 \<rparr>
   \<and> returned (updateTransaction toString_whole ''t2'' raise_food
        (succeeded [row_food\<lparr> amount := 45 \<rparr>]) (Rejected (StoreError ''fetch failed''))
        signed_in) = Null"
  by (simp add: updateTransaction_def mutate_try_def succeeded_def failure_def signed_in_def
      cached_def row_food_def)

text \<open>
  Claim C8, amended. When the request of a remove is answered without error and the call
  that writes the log resolves, no cache entry with the identifier remains, the entries
  with other identifiers stay in their order, and the cache is shorter by the number of
  entries that had the identifier: by exactly one when exactly one cached entry had it.
\<close>

theorem remove_drops_matching_entries:
  assumes "user st = Some u"
  shows "(\<forall>t \<in> set (transactions (state (deleteTransaction id'
              (Resolved \<lparr> data = d, error = None \<rparr>) (Resolved r') st))). id_tx t \<noteq> id')
       \<and> transactions (state (deleteTransaction id'
              (Resolved \<lparr> data = d, error = None \<rparr>) (Resolved r') st))
           = filter (\<lambda>t. id_tx t \<noteq> id') (transactions st)
       \<and> length (transactions (state (deleteTransaction id'
              (Resolved \<lparr> data = d, error = None \<rparr>) (Resolved r') st)))
           + length (filter (\<lambda>t. id_tx t = id') (transactions st))
           = length (transactions st)
       \<and> (length (filter (\<lambda>t. id_tx t = id') (transactions st)) = 1 \<longrightarrow>
            length (transactions (state (deleteTransaction id'
              (Resolved \<lparr> data = d, error = None \<rparr>) (Resolved r') st))) + 1
            = length (transactions st))"
proof -
  have cache: "transactions (state (deleteTransaction id'
              (Resolved \<lparr> data = d, error = None \<rparr>) (Resolved r') st))
           = filter (\<lambda>t. id_tx t \<noteq> id') (transactions st)"
    using assms by (simp add: deleteTransaction_def delete_try_def)
  have count: "length (filter (\<lambda>t. id_tx t \<noteq> id') (transactions st))
                 + length (filter (\<lambda>t. id_tx t = id') (transactions st))
               = length (transactions st)"
    using sum_length_filter_compl [of "\<lambda>t. id_tx t = id'" "transactions st"] by simp
  show ?thesis
    unfolding cache using count by auto
qed

theorem remove_drops_matching_entries_witness:
  "user signed_in = Some alice
   \<and> length (filter (\<lambda>t. id_tx t = ''t2'') (transactions signed_in)) = 1
   \<and> transactions (state (deleteTransaction ''t2'' acknowledged acknowledged signed_in))
       = [cached row_salary]
   \<and> length (transactions (state (deleteTransaction ''t2'' acknowledged acknowledged
        signed_in))) + 1 = length (transactions signed_in)"
proof -
  have u: "user signed_in = Some alice"
    by (simp add: signed_in_def)
  have one: "length (filter (\<lambda>t. id_tx t = ''t2'') (transactions signed_in)) = 1"
    by (simp add: signed_in_def cached_def row_food_def row_salary_def)
  have kept: "filter (\<lambda>t. id_tx t \<noteq> ''t2'') (transactions signed_in) = [cached row_salary]"
    by (simp add: signed_in_def cached_def row_food_def row_salary_def)
  have len: "length (transactions signed_in) = 2"
    by (simp add: signed_in_def)
  show ?thesis
    using remove_drops_matching_entries [OF u, of "''t2''" None "\<lparr> data = None, error = None \<rparr>",
            folded acknowledged_def] u one kept len
    by simp
qed

text \<open>
  A remove of an identifier that no cached entry has succeeds and leaves the size of the
  cache as it was; and a remove that succeeds at the store and whose log call rejects
  leaves the entry with the identifier in the cache.
\<close>

theorem remove_can_keep_size:
  "user signed_in = Some alice
   \<and> returned (deleteTransaction ''t9'' acknowledged acknowledged signed_in) = Value True
   \<and> length (transactions (state (deleteTransaction ''t9'' acknowledged acknowledged signed_in)))
       = length (transactions signed_in)
   \<and> failure (acknowledged :: rat Response Await) = None
   \<and> transactions (state (deleteTransaction ''t2'' acknowledged
        (Rejected (StoreError ''fetch failed'')) signed_in))
       = [cached row_food, cached row_salary]
   \<and> id_tx (cached row_food) = ''t2''
   \<and> returned (deleteTransaction ''t2'' (acknowledged :: rat Response Await)
        (Rejected (StoreError ''fetch failed'')) signed_in) = Value False"
  by (simp add: deleteTransaction_def delete_try_def acknowledged_def failure_def signed_in_def
      cached_def row_food_def row_salary_def)

text \<open>
  Claim C9, amended. With a user signed in, the value the log call resolves with is
  never read: whatever it is, error or not, each operation does what it does when the
  log is written. When the first request is answered without error (for a create or an
  update, with a row) and the log call resolves, that is the success path: both requests
  sent, the cache changed, the success toast shown, the entry or \<^verbatim>\<open>true\<close> returned. When
  the first request succeeded and the log call rejects, the operation takes the failure
  path: both requests have been sent, the state and so the cache is left as it was, an
  error toast is shown, and \<^verbatim>\<open>null\<close> (create, update) or \<^verbatim>\<open>false\<close> (remove) is
  returned.
\<close>

theorem log_result_dropped_rejection_caught:
  assumes "user st = Some u"
  shows "addTransaction toString newTransaction answer (Resolved r') st
           = addTransaction toString newTransaction answer acknowledged st
       \<and> updateTransaction toString id' updates answer (Resolved r') st
           = updateTransaction toString id' updates answer acknowledged st
       \<and> deleteTransaction id' answer (Resolved r') st
           = deleteTransaction id' answer acknowledged st
       \<and> addTransaction toString newTransaction
            (Resolved \<lparr> data = Some (row # rest), error = None \<rparr>) (Resolved r') st
           = \<lparr> state = st\<lparr> transactions :=
                               row\<lparr> displayAmount := Some (amount row) \<rparr> # transactions st \<rparr>,
               effects = [StoreCall (InsertTransactions
                            (NewTransaction.extend newTransaction
                               (InsertRow.fields (id_user u)))),
                          StoreCall (InsertActivityLogs (added_log toString u newTransaction)),
                          ToastSuccess
                            ((if type_tx newTransaction = Income then ''Income'' else ''Expense'')
                             @ '' added successfully'') green],
               returned = Value (row\<lparr> displayAmount := Some (amount row) \<rparr>) \<rparr>
       \<and> updateTransaction toString id' updates
            (Resolved \<lparr> data = Some (row # rest), error = None \<rparr>) (Resolved r') st
           = \<lparr> state = st\<lparr> transactions :=
                               map (\<lambda>t. if id_tx t = id'
                                         then row\<lparr> displayAmount := Some (amount row) \<rparr>
                                         else t)
                                   (transactions st) \<rparr>,
               effects = [StoreCall (UpdateTransactions updates [Eq ''id'' id']),
                          StoreCall (InsertActivityLogs (updated_log toString u updates)),
                          ToastSuccess ''Transaction updated successfully'' green],
               returned = Value (row\<lparr> displayAmount := Some (amount row) \<rparr>) \<rparr>
       \<and> deleteTransaction id' (Resolved \<lparr> data = d, error = None \<rparr>) (Resolved r') st
           = \<lparr> state = st\<lparr> transactions :=
                               filter (\<lambda>t. id_tx t \<noteq> id') (transactions st) \<rparr>,
               effects = [StoreCall (DeleteTransactions [Eq ''id'' id']),
                          StoreCall (InsertActivityLogs (deleted_log u)),
                          ToastSuccess ''Transaction deleted successfully'' green],
               returned = Value True \<rparr>
       \<and> (failure answer = None \<longrightarrow>
            addTransaction toString newTransaction answer (Rejected e) st
              = \<lparr> state = st,
                  effects = [StoreCall (InsertTransactions
                               (NewTransaction.extend newTransaction
                                  (InsertRow.fields (id_user u)))),
                             StoreCall (InsertActivityLogs (added_log toString u newTransaction)),
                             ConsoleError ''Error adding transaction:'' e,
                             ToastError ''Failed to add transaction'' red],
                  returned = Null \<rparr>
          \<and> updateTransaction toString id' updates answer (Rejected e) st
              = \<lparr> state = st,
                  effects = [StoreCall (UpdateTransactions updates [Eq ''id'' id']),
                             StoreCall (InsertActivityLogs (updated_log toString u updates)),
                             ConsoleError ''Error updating transaction:'' e,
                             ToastError ''Failed to update transaction'' red],
                  returned = Null \<rparr>
          \<and> deleteTransaction id' answer (Rejected e) st
              = \<lparr> state = st,
                  effects = [StoreCall (DeleteTransactions [Eq ''id'' id']),
                             StoreCall (InsertActivityLogs (deleted_log u)),
                             ConsoleError ''Error deleting transaction:'' e,
                             ToastError ''Failed to delete transaction'' red],
                  returned = Value False \<rparr>)"
proof -
  have dropped: "addTransaction toString newTransaction answer (Resolved r') st
           = addTransaction toString newTransaction answer acknowledged st
       \<and> updateTransaction toString id' updates answer (Resolved r') st
           = updateTransaction toString id' updates answer acknowledged st
       \<and> deleteTransaction id' answer (Resolved r') st
           = deleteTransaction id' answer acknowledged st"
    unfolding addTransaction_def updateTransaction_def deleteTransaction_def
    by (simp only: mutate_try_log_dropped [of _ _ _ r'] delete_try_log_dropped [of _ _ _ r'])
  have success: "addTransaction toString newTransaction
            (Resolved \<lparr> data = Some (row # rest), error = None \<rparr>) (Resolved r') st
           = \<lparr> state = st\<lparr> transactions :=
                               row\<lparr> displayAmount := Some (amount row) \<rparr> # transactions st \<rparr>,
               effects = [StoreCall (InsertTransactions
                            (NewTransaction.extend newTransaction
                               (InsertRow.fields (id_user u)))),
                          StoreCall (InsertActivityLogs (added_log toString u newTransaction)),
                          ToastSuccess
                            ((if type_tx newTransaction = Income then ''Income'' else ''Expense'')
                             @ '' added successfully'') green],
               returned = Value (row\<lparr> displayAmount := Some (amount row) \<rparr>) \<rparr>
       \<and> updateTransaction toString id' updates
            (Resolved \<lparr> data = Some (row # rest), error = None \<rparr>) (Resolved r') st
           = \<lparr> state = st\<lparr> transactions :=
                               map (\<lambda>t. if id_tx t = id'
                                         then row\<lparr> displayAmount := Some (amount row) \<rparr>
                                         else t)
                                   (transactions st) \<rparr>,
               effects = [StoreCall (UpdateTransactions updates [Eq ''id'' id']),
                          StoreCall (InsertActivityLogs (updated_log toString u updates)),
                          ToastSuccess ''Transaction updated successfully'' green],
               returned = Value (row\<lparr> displayAmount := Some (amount row) \<rparr>) \<rparr>
       \<and> deleteTransaction id' (Resolved \<lparr> data = d, error = None \<rparr>) (Resolved r') st
           = \<lparr> state = st\<lparr> transactions :=
                               filter (\<lambda>t. id_tx t \<noteq> id') (transactions st) \<rparr>,
               effects = [StoreCall (DeleteTransactions [Eq ''id'' id']),
                          StoreCall (InsertActivityLogs (deleted_log u)),
                          ToastSuccess ''Transaction deleted successfully'' green],
               returned = Value True \<rparr>"
    using assms
    by (simp add: addTransaction_def updateTransaction_def deleteTransaction_def
        mutate_try_success delete_try_def eq_def)
  have thrown: "addTransaction toString newTransaction answer (Rejected e) st
              = \<lparr> state = st,
                  effects = [StoreCall (InsertTransactions
                               (NewTransaction.extend newTransaction
                                  (InsertRow.fields (id_user u)))),
                             StoreCall (InsertActivityLogs (added_log toString u newTransaction)),
                             ConsoleError ''Error adding transaction:'' e,
                             ToastError ''Failed to add transaction'' red],
                  returned = Null \<rparr>
          \<and> updateTransaction toString id' updates answer (Rejected e) st
              = \<lparr> state = st,
                  effects = [StoreCall (UpdateTransactions updates [Eq ''id'' id']),
                             StoreCall (InsertActivityLogs (updated_log toString u updates)),
                             ConsoleError ''Error updating transaction:'' e,
                             ToastError ''Failed to update transaction'' red],
                  returned = Null \<rparr>
          \<and> deleteTransaction id' answer (Rejected e) st
              = \<lparr> state = st,
                  effects = [StoreCall (DeleteTransactions [Eq ''id'' id']),
                             StoreCall (InsertActivityLogs (deleted_log u)),
                             ConsoleError ''Error deleting transaction:'' e,
                             ToastError ''Failed to delete transaction'' red],
                  returned = Value False \<rparr>"
    if "failure answer = None"
    using assms that
    by (simp add: addTransaction_def updateTransaction_def deleteTransaction_def
        mutate_try_log_rejected delete_try_log_rejected eq_def)
  from dropped success thrown show ?thesis
    by blast
qed

theorem log_result_dropped_rejection_caught_witness:
  "user signed_in = Some alice
   \<and> failure (succeeded [row_coffee]) = None
   \<and> addTransaction toString_whole new_coffee (succeeded [row_coffee])
        (refused ''activity_logs is read-only'') signed_in
       = addTransaction toString_whole new_coffee (succeeded [row_coffee]) acknowledged signed_in
   \<and> transactions (state (addTransaction toString_whole new_coffee (succeeded [row_coffee])
        (refused ''activity_logs is read-only'') signed_in))
       = [cached row_coffee, cached row_food, cached row_salary]
   \<and> returned (addTransaction toString_whole new_coffee (succeeded [row_coffee])
        (refused ''activity_logs is read-only'') signed_in) = Value (cached row_coffee)
   \<and> state (addTransaction toString_whole new_coffee (succeeded [row_coffee])
        (Rejected (StoreError ''fetch failed'')) signed_in) = signed_in
   \<and> returned (addTransaction toString_whole new_coffee (succeeded [row_coffee])
        (Rejected (StoreError ''fetch failed'')) signed_in) = Null
   \<and> returned (deleteTransaction ''t2'' (acknowledged :: rat Response Await)
        (Rejected (StoreError ''fetch failed'')) signed_in) = Value False"
proof -
  have u: "user signed_in = Some alice"
    by (simp add: signed_in_def)
  have created: "failure (succeeded [row_coffee]) = None"
    by (simp add: failure_def succeeded_def)
  have deleted: "failure (acknowledged :: rat Response Await) = None"
    by (simp add: failure_def acknowledged_def)
  have cache: "transactions signed_in = [cached row_food, cached row_salary]"
    by (simp add: signed_in_def)
  note create = log_result_dropped_rejection_caught [OF u,
      where toString = toString_whole and newTransaction = new_coffee
        and answer = "succeeded [row_coffee]" and row = row_coffee and rest = "[]"
        and r' = "\<lparr> data = None, error = Some (StoreError ''activity_logs is read-only'') \<rparr>"
        and e = "StoreError ''fetch failed''"]
  note remove = log_result_dropped_rejection_caught [OF u,
      where answer = "acknowledged :: rat Response Await" and id' = "''t2''"
        and e = "StoreError ''fetch failed''"]
  from create have dropped: "addTransaction toString_whole new_coffee (succeeded [row_coffee])
        (refused ''activity_logs is read-only'') signed_in
       = addTransaction toString_whole new_coffee (succeeded [row_coffee]) acknowledged signed_in"
    by (simp add: refused_def)
  from create
  have "addTransaction toString_whole new_coffee
          (Resolved \<lparr> data = Some [row_coffee], error = None \<rparr>)
          (Resolved \<lparr> data = None, error = Some (StoreError ''activity_logs is read-only'') \<rparr>)
          signed_in
       = \<lparr> state = signed_in\<lparr> transactions :=
             row_coffee\<lparr> displayAmount := Some (amount row_coffee) \<rparr> # transactions signed_in \<rparr>,
           effects = [StoreCall (InsertTransactions
                        (NewTransaction.extend new_coffee (InsertRow.fields (id_user alice)))),
                      StoreCall (InsertActivityLogs (added_log toString_whole alice new_coffee)),
                      ToastSuccess
                        ((if type_tx new_coffee = Income then ''Income'' else ''Expense'')
                         @ '' added successfully'') green],
           returned = Value (row_coffee\<lparr> displayAmount := Some (amount row_coffee) \<rparr>) \<rparr>"
    by blast
  then have success: "addTransaction toString_whole new_coffee (succeeded [row_coffee])
        (refused ''activity_logs is read-only'') signed_in
       = \<lparr> state = signed_in\<lparr> transactions := cached row_coffee # transactions signed_in \<rparr>,
           effects = [StoreCall (InsertTransactions
                        (NewTransaction.extend new_coffee (InsertRow.fields (id_user alice)))),
                      StoreCall (InsertActivityLogs (added_log toString_whole alice new_coffee)),
                      ToastSuccess
                        ((if type_tx new_coffee = Income then ''Income'' else ''Expense'')
                         @ '' added successfully'') green],
           returned = Value (cached row_coffee) \<rparr>"
    by (simp only: refused_def succeeded_def cached_def)
  have cached_first: "transactions (state (addTransaction toString_whole new_coffee
        (succeeded [row_coffee]) (refused ''activity_logs is read-only'') signed_in))
       = [cached row_coffee, cached row_food, cached row_salary]"
    unfolding success by (simp add: cache)
  have given_back: "returned (addTransaction toString_whole new_coffee (succeeded [row_coffee])
        (refused ''activity_logs is read-only'') signed_in) = Value (cached row_coffee)"
    unfolding success by simp
  from create created
  have thrown: "addTransaction toString_whole new_coffee (succeeded [row_coffee])
        (Rejected (StoreError ''fetch failed'')) signed_in
       = \<lparr> state = signed_in,
           effects = [StoreCall (InsertTransactions
                        (NewTransaction.extend new_coffee (InsertRow.fields (id_user alice)))),
                      StoreCall (InsertActivityLogs (added_log toString_whole alice new_coffee)),
                      ConsoleError ''Error adding transaction:'' (StoreError ''fetch failed''),
                      ToastError ''Failed to add transaction'' red],
           returned = Null \<rparr>"
    by blast
  have kept: "state (addTransaction toString_whole new_coffee (succeeded [row_coffee])
        (Rejected (StoreError ''fetch failed'')) signed_in) = signed_in"
    unfolding thrown by simp
  have sentinel: "returned (addTransaction toString_whole new_coffee (succeeded [row_coffee])
        (Rejected (StoreError ''fetch failed'')) signed_in) = Null"
    unfolding thrown by simp
  from remove deleted
  have "deleteTransaction ''t2'' (acknowledged :: rat Response Await)
        (Rejected (StoreError ''fetch failed'')) signed_in
       = \<lparr> state = signed_in,
           effects = [StoreCall (DeleteTransactions [Eq ''id'' ''t2'']),
                      StoreCall (InsertActivityLogs (deleted_log alice)),
                      ConsoleError ''Error deleting transaction:'' (StoreError ''fetch failed''),
                      ToastError ''Failed to delete transaction'' red],
           returned = Value False \<rparr>"
    by blast
  then have refused_remove: "returned (deleteTransaction ''t2'' (acknowledged :: rat Response Await)
        (Rejected (StoreError ''fetch failed'')) signed_in) = Value False"
    by simp
  from u created dropped cached_first given_back kept sentinel refused_remove
  show ?thesis
    by (simp only: simp_thms)
qed

text \<open>
  A create whose insert succeeds and whose log insert is answered with an error returns
  the new entry, puts it in front of the cache and shows the success toast.
\<close>

theorem log_error_takes_success_path:
  "user signed_in = Some alice
   \<and> failure (succeeded [row_coffee]) = None
   \<and> failure (refused ''activity_logs is read-only'' :: rat Response Await)
       = Some (StoreError ''activity_logs is read-only'')
   \<and> returned (addTransaction toString_whole new_coffee (succeeded [row_coffee])
                 (refused ''activity_logs is read-only'') signed_in)
       = Value (cached row_coffee)
   \<and> transactions (state (addTransaction toString_whole new_coffee (succeeded [row_coffee])
                 (refused ''activity_logs is read-only'') signed_in))
       = [cached row_coffee, cached row_food, cached row_salary]
   \<and> last (effects (addTransaction toString_whole new_coffee (succeeded [row_coffee])
                 (refused ''activity_logs is read-only'') signed_in))
       = ToastSuccess ''Expense added successfully'' green"
  by (simp add: addTransaction_def signed_in_def succeeded_def refused_def failure_def
      mutate_try_def first_row_def cached_def new_coffee_def)

end
